theory Spec2Isabelle
  imports Complex_Main "HOL-Library.Word"
begin

unbundle bit_operations_syntax

section \<open>JavaScript values used by the program\<close>

text \<open>
  A JavaScript string is a sequence of UTF-16 code units; a \<open>Buffer\<close> is a sequence of
  bytes.  String literals of the source are written \<open>str ''...''\<close>.
\<close>

type_synonym byte = "8 word"
type_synonym jsstring = "16 word list"

definition str :: "string \<Rightarrow> jsstring" where
  "str s = map (\<lambda>c. of_nat (of_char c)) s"

text \<open>
  A JavaScript number is an IEEE double.  The program only tests numbers with \<open>isNaN\<close>
  and compares them with \<open>0\<close>, so a number is \<open>NaN\<close>, an infinity or a finite value,
  and a finite double is the rational it denotes.
\<close>

datatype jsnum = NaN | PosInf | NegInf | Fin rat

text \<open>
  A property that may be \<open>undefined\<close> is an \<open>option\<close>.  \<open>truthy\<close> is the test
  \<open>if (v)\<close> on a value that is a string or \<open>undefined\<close>/\<open>null\<close>: the empty string is
  falsy.
\<close>

definition truthy :: "jsstring option \<Rightarrow> bool" where
  "truthy v = (case v of None \<Rightarrow> False | Some s \<Rightarrow> s \<noteq> [])"

text \<open>\<open>isNaN(v)\<close> converts \<open>v\<close> to a number first; \<open>undefined\<close> converts to \<open>NaN\<close>.\<close>

definition isNaN :: "jsnum option \<Rightarrow> bool" where
  "isNaN v = (case v of None \<Rightarrow> True | Some n \<Rightarrow> n = NaN)"

text \<open>\<open>v <= 0\<close>: false when \<open>v\<close> converts to \<open>NaN\<close>.\<close>

definition le_zero :: "jsnum option \<Rightarrow> bool" where
  "le_zero v =
     (case v of
        None \<Rightarrow> False
      | Some NaN \<Rightarrow> False
      | Some PosInf \<Rightarrow> False
      | Some NegInf \<Rightarrow> True
      | Some (Fin q) \<Rightarrow> q \<le> 0)"



section \<open>Buffers: UTF-8, hexadecimal and base64\<close>

definition is_high_surrogate :: "16 word \<Rightarrow> bool" where
  "is_high_surrogate c = (0xD800 \<le> c \<and> c \<le> 0xDBFF)"

definition is_low_surrogate :: "16 word \<Rightarrow> bool" where
  "is_low_surrogate c = (0xDC00 \<le> c \<and> c \<le> 0xDFFF)"

definition utf8_of_code_point :: "nat \<Rightarrow> byte list" where
  "utf8_of_code_point n =
     (if n < 0x80 then [of_nat n]
      else if n < 0x800 then [of_nat (0xC0 + n div 64), of_nat (0x80 + n mod 64)]
      else if n < 0x10000 then
        [of_nat (0xE0 + n div 4096), of_nat (0x80 + (n div 64) mod 64), of_nat (0x80 + n mod 64)]
      else
        [of_nat (0xF0 + n div 262144), of_nat (0x80 + (n div 4096) mod 64),
         of_nat (0x80 + (n div 64) mod 64), of_nat (0x80 + n mod 64)])"

text \<open>
  \<open>Buffer.from(s)\<close> and \<open>Buffer.from(s, "utf8")\<close>: a surrogate pair is one code point,
  a lone surrogate is encoded as U+FFFD.
\<close>

fun utf8_encode :: "jsstring \<Rightarrow> byte list" where
  "utf8_encode [] = []"
| "utf8_encode [c] =
     (if is_high_surrogate c \<or> is_low_surrogate c then utf8_of_code_point 0xFFFD
      else utf8_of_code_point (unat c))"
| "utf8_encode (c # d # cs) =
     (if is_high_surrogate c then
        (if is_low_surrogate d
         then utf8_of_code_point (0x10000 + (unat c - 0xD800) * 1024 + (unat d - 0xDC00))
                @ utf8_encode cs
         else utf8_of_code_point 0xFFFD @ utf8_encode (d # cs))
      else if is_low_surrogate c then utf8_of_code_point 0xFFFD @ utf8_encode (d # cs)
      else utf8_of_code_point (unat c) @ utf8_encode (d # cs))"

text \<open>\<open>buf.toString("hex")\<close> and \<open>hash.digest("hex")\<close>: two lower-case digits a byte.\<close>

definition hex_digit :: "nat \<Rightarrow> 16 word" where
  "hex_digit n = (if n < 10 then of_nat (48 + n) else of_nat (87 + n))"

definition hex :: "byte list \<Rightarrow> jsstring" where
  "hex bs = concat (map (\<lambda>b. [hex_digit (unat b div 16), hex_digit (unat b mod 16)]) bs)"

text \<open>
  \<open>buf.toString("base64")\<close>: the alphabet of RFC 4648 with \<open>=\<close> padding, three bytes
  to four characters.
\<close>

definition b64_char :: "nat \<Rightarrow> 16 word" where
  "b64_char i =
     (if i < 26 then of_nat (65 + i)
      else if i < 52 then of_nat (71 + i)
      else if i < 62 then of_nat (i - 4)
      else if i = 62 then 43
      else 47)"

definition b64_pad :: "16 word" where
  "b64_pad = 61"

fun base64_encode :: "byte list \<Rightarrow> jsstring" where
  "base64_encode [] = []"
| "base64_encode [a] =
     (let n = unat a * 65536
      in [b64_char (n div 262144), b64_char (n div 4096 mod 64), b64_pad, b64_pad])"
| "base64_encode [a, b] =
     (let n = unat a * 65536 + unat b * 256
      in [b64_char (n div 262144), b64_char (n div 4096 mod 64), b64_char (n div 64 mod 64),
          b64_pad])"
| "base64_encode (a # b # c # rest) =
     (let n = unat a * 65536 + unat b * 256 + unat c
      in [b64_char (n div 262144), b64_char (n div 4096 mod 64), b64_char (n div 64 mod 64),
          b64_char (n mod 64)] @ base64_encode rest)"

text \<open>
  The decoding of a padded base64 text, the inverse of \<open>base64_encode\<close>; \<open>None\<close> on text
  that is not one.
\<close>

definition b64_index :: "16 word \<Rightarrow> nat option" where
  "b64_index c =
     (let k = unat c in
      if 65 \<le> k \<and> k \<le> 90 then Some (k - 65)
      else if 97 \<le> k \<and> k \<le> 122 then Some (k - 71)
      else if 48 \<le> k \<and> k \<le> 57 then Some (k + 4)
      else if k = 43 then Some 62
      else if k = 47 then Some 63
      else None)"

fun base64_decode :: "jsstring \<Rightarrow> byte list option" where
  "base64_decode [] = Some []"
| "base64_decode (c1 # c2 # c3 # c4 # rest) =
     (if c3 = b64_pad \<and> c4 = b64_pad \<and> rest = [] then
        (case (b64_index c1, b64_index c2) of
           (Some i1, Some i2) \<Rightarrow> Some [of_nat ((i1 * 64 + i2) div 16)]
         | _ \<Rightarrow> None)
      else if c4 = b64_pad \<and> rest = [] then
        (case (b64_index c1, b64_index c2, b64_index c3) of
           (Some i1, Some i2, Some i3) \<Rightarrow>
             (let n = i1 * 4096 + i2 * 64 + i3
              in Some [of_nat (n div 1024), of_nat (n div 4 mod 256)])
         | _ \<Rightarrow> None)
      else
        (case (b64_index c1, b64_index c2, b64_index c3, b64_index c4) of
           (Some i1, Some i2, Some i3, Some i4) \<Rightarrow>
             (let n = i1 * 262144 + i2 * 4096 + i3 * 64 + i4
              in case base64_decode rest of
                   None \<Rightarrow> None
                 | Some bs \<Rightarrow>
                     Some (of_nat (n div 65536) # of_nat (n div 256 mod 256) # of_nat (n mod 256)
                           # bs))
         | _ \<Rightarrow> None))"
| "base64_decode _ = None"

section \<open>HMAC-SHA1\<close>

text \<open>
  \<open>crypto.createHmac("sha1", key)\<close>, \<open>update\<close> and \<open>digest\<close>: SHA-1 (FIPS 180-4) on
  32-bit words and HMAC (RFC 2104) with the 64-byte block of SHA-1.
\<close>

definition be_bytes32 :: "32 word \<Rightarrow> byte list" where
  "be_bytes32 w = [ucast (drop_bit 24 w), ucast (drop_bit 16 w), ucast (drop_bit 8 w), ucast w]"

definition be_word32 :: "byte \<Rightarrow> byte \<Rightarrow> byte \<Rightarrow> byte \<Rightarrow> 32 word" where
  "be_word32 a b c d =
     push_bit 24 (ucast a) OR push_bit 16 (ucast b) OR push_bit 8 (ucast c) OR ucast d"

fun words_of_bytes :: "byte list \<Rightarrow> 32 word list" where
  "words_of_bytes (a # b # c # d # rest) = be_word32 a b c d # words_of_bytes rest"
| "words_of_bytes _ = []"

definition sha1_pad :: "byte list \<Rightarrow> byte list" where
  "sha1_pad m =
     m @ [0x80] @ replicate ((119 - length m mod 64) mod 64) 0
       @ be_bytes32 (of_nat (length m * 8 div 2 ^ 32)) @ be_bytes32 (of_nat (length m * 8))"

fun sha1_schedule :: "nat \<Rightarrow> 32 word list \<Rightarrow> 32 word list" where
  "sha1_schedule 0 w = w"
| "sha1_schedule (Suc n) w =
     sha1_schedule n
       (w @ [word_rotl 1 (w ! (length w - 3) XOR w ! (length w - 8)
                            XOR w ! (length w - 14) XOR w ! (length w - 16))])"

type_synonym sha1_state = "32 word \<times> 32 word \<times> 32 word \<times> 32 word \<times> 32 word"

definition sha1_f :: "nat \<Rightarrow> 32 word \<Rightarrow> 32 word \<Rightarrow> 32 word \<Rightarrow> 32 word" where
  "sha1_f t b c d =
     (if t < 20 then (b AND c) OR (NOT b AND d)
      else if t < 40 then b XOR c XOR d
      else if t < 60 then (b AND c) OR (b AND d) OR (c AND d)
      else b XOR c XOR d)"

definition sha1_k :: "nat \<Rightarrow> 32 word" where
  "sha1_k t =
     (if t < 20 then 0x5A827999
      else if t < 40 then 0x6ED9EBA1
      else if t < 60 then 0x8F1BBCDC
      else 0xCA62C1D6)"

definition sha1_round :: "32 word list \<Rightarrow> nat \<Rightarrow> sha1_state \<Rightarrow> sha1_state" where
  "sha1_round w t st =
     (case st of (a, b, c, d, e) \<Rightarrow>
        (word_rotl 5 a + sha1_f t b c d + e + sha1_k t + w ! t, a, word_rotl 30 b, c, d))"

definition sha1_compress :: "sha1_state \<Rightarrow> byte list \<Rightarrow> sha1_state" where
  "sha1_compress h block =
     (let w = sha1_schedule 64 (words_of_bytes block) in
      case (h, fold (sha1_round w) [0..<80] h) of
        ((h0, h1, h2, h3, h4), (a, b, c, d, e)) \<Rightarrow> (h0 + a, h1 + b, h2 + c, h3 + d, h4 + e))"

fun sha1_blocks :: "nat \<Rightarrow> sha1_state \<Rightarrow> byte list \<Rightarrow> sha1_state" where
  "sha1_blocks 0 h m = h"
| "sha1_blocks (Suc n) h m = sha1_blocks n (sha1_compress h (take 64 m)) (drop 64 m)"

definition sha1 :: "byte list \<Rightarrow> byte list" where
  "sha1 m =
     (let p = sha1_pad m in
      case sha1_blocks (length p div 64)
             (0x67452301, 0xEFCDAB89, 0x98BADCFE, 0x10325476, 0xC3D2E1F0) p of
        (h0, h1, h2, h3, h4) \<Rightarrow> concat (map be_bytes32 [h0, h1, h2, h3, h4]))"

definition hmac_sha1 :: "byte list \<Rightarrow> byte list \<Rightarrow> byte list" where
  "hmac_sha1 key m =
     (let k0 = (if length key > 64 then sha1 key else key);
          k = k0 @ replicate (64 - length k0) 0
      in sha1 (map (\<lambda>b. b XOR 0x5C) k @ sha1 (map (\<lambda>b. b XOR 0x36) k @ m)))"

text \<open>
  \<open>crypto.timingSafeEqual(a, b)\<close> throws when the two buffers differ in byte length and
  compares them otherwise.
\<close>

datatype response = Response (status: int) (data_id: int)

datatype error =
    BadResponse response
  | RemoteRejected jsstring
  | TimingSafeEqualLength
  | JsonSyntaxError
  | HandlerRejected jsstring

definition timingSafeEqual :: "byte list \<Rightarrow> byte list \<Rightarrow> error + bool" where
  "timingSafeEqual a b = (if length a \<noteq> length b then Inl TimingSafeEqualLength else Inr (a = b))"

section \<open>The secret generator (\<open>RandomProvider\<close>)\<close>

text \<open>
  The property bag of a \<open>RandomResource\<close> holds \<open>byteCount\<close>, a number, or nothing
  (\<open>undefined\<close>).
\<close>

record random_props =
  byteCount :: "jsnum option"

record check_failure =
  property :: string
  reason :: string

record 'a check_result =
  inputs :: 'a
  failedChecks :: "check_failure list"

definition RandomProvider_check :: "random_props \<Rightarrow> random_props \<Rightarrow> random_props check_result" where
  "RandomProvider_check olds news =
     (let failedChecks0 = [];
          failedChecks1 =
            (if byteCount news = None
             then failedChecks0 @
                    [\<lparr>property = ''byteCount'', reason = ''required property 'byteCount' missing''\<rparr>]
             else failedChecks0);
          failedChecks2 =
            (if \<not> isNaN (byteCount news) \<or> le_zero (byteCount news)
             then failedChecks1 @
                    [\<lparr>property = ''byteCount'', reason = '''byteCount' should be a positive number''\<rparr>]
             else failedChecks1)
      in \<lparr>inputs = news, failedChecks = failedChecks2\<rparr>)"

definition RandomProvider_diff :: "jsstring \<Rightarrow> random_props \<Rightarrow> random_props \<Rightarrow> string list" where
  "RandomProvider_diff ident olds news =
     (if byteCount olds \<noteq> byteCount news then [''byteCount''] else [])"

text \<open>
  \<open>crypto.randomBytes(n)\<close> draws \<open>n\<close> bytes from the system's random source, here the
  sequence \<open>src\<close> of the bytes it will deliver.
\<close>

definition randomBytes :: "nat \<Rightarrow> (nat \<Rightarrow> byte) \<Rightarrow> byte list" where
  "randomBytes n src = map src [0..<n]"

record random_created =
  random_id :: jsstring
  outs_value :: jsstring

definition RandomProvider_create :: "(nat \<Rightarrow> byte) \<Rightarrow> random_props \<Rightarrow> random_created" where
  "RandomProvider_create src ins =
     (let val = base64_encode (randomBytes 32 src)
      in \<lparr>random_id = val, outs_value = val\<rparr>)"

section \<open>The webhook registration (\<open>GithubWebhookProvider\<close>)\<close>

text \<open>
  The property bag of a \<open>GitHubWebhookResource\<close>, as \<open>GitHubWebhookResourceArgs\<close>
  declares it: every property is a string (\<open>events\<close> a list of strings) or \<open>undefined\<close>.
\<close>

record webhook_props =
  url :: "jsstring option"
  owner :: "jsstring option"
  repo :: "jsstring option"
  org :: "jsstring option"
  events :: "jsstring list option"
  secret :: "jsstring option"


definition GithubWebhookProvider_check ::
  "webhook_props \<Rightarrow> webhook_props \<Rightarrow> webhook_props check_result" where
  "GithubWebhookProvider_check olds news =
     (let failedChecks0 = [];
          failedChecks1 =
            (if url news = None
             then failedChecks0 @ [\<lparr>property = ''url'', reason = ''required property 'url' missing''\<rparr>]
             else failedChecks0);
          failedChecks2 =
            (if org news \<noteq> None \<and> (owner news \<noteq> None \<or> repo news \<noteq> None)
             then failedChecks1 @
                    [\<lparr>property = ''org'', reason = ''when 'org' is set, 'owner' and 'repo' must not be''\<rparr>]
             else failedChecks1);
          failedChecks3 =
            (if owner news \<noteq> None \<and> repo news = None
             then failedChecks2 @
                    [\<lparr>property = ''repo'', reason = ''when 'owner' is set, 'repo' must be as well''\<rparr>]
             else failedChecks2);
          failedChecks4 =
            (if repo news \<noteq> None \<and> owner news = None
             then failedChecks3 @
                    [\<lparr>property = ''owner'', reason = ''when 'repo' is set, 'owner' must be as well''\<rparr>]
             else failedChecks3)
      in \<lparr>inputs = news, failedChecks = failedChecks4\<rparr>)"


text \<open>
  The calls the provider makes on the GitHub client, with their parameters in the order
  of the source:
  \<^item> \<open>authenticate({type, token})\<close>;
  \<^item> \<open>orgs.createHook({org, name, events, config})\<close> and
    \<open>repos.createHook({owner, repo, name, events, config})\<close>, whose \<open>config\<close> is
    \<open>{content_type, url, secret}\<close>;
  \<^item> \<open>repos.editHook({hook_id, owner, repo, events, config})\<close>, whose \<open>config\<close> is
    \<open>{content_type, url}\<close>;
  \<^item> \<open>orgs.deleteHook({hook_id, org})\<close> and \<open>repos.deleteHook({hook_id, owner, repo})\<close>.
\<close>

datatype create_config =
  CreateConfig (content_type: jsstring) (config_url: "jsstring option")
    (config_secret: "jsstring option")

datatype edit_config =
  EditConfig (edit_content_type: jsstring) (edit_url: "jsstring option")

datatype api_call =
    Authenticate jsstring jsstring
  | OrgsCreateHook "jsstring option" jsstring "jsstring list option" create_config
  | ReposCreateHook "jsstring option" "jsstring option" jsstring "jsstring list option"
      create_config
  | ReposEditHook jsstring "jsstring option" "jsstring option" "jsstring list option" edit_config
  | OrgsDeleteHook jsstring "jsstring option"
  | ReposDeleteHook jsstring "jsstring option" "jsstring option"

text \<open>
  The remote service answers a call with a response (its \<open>status\<close> and the \<open>id\<close> of its
  \<open>data\<close>) or the awaited call is rejected.  \<open>ghToken\<close> is the configured token.  Each
  operation returns the calls it made, in order, with its result.
\<close>

type_synonym remote = "api_call \<Rightarrow> error + response"


definition GithubWebhookProvider_update ::
  "jsstring \<Rightarrow> remote \<Rightarrow> jsstring \<Rightarrow> webhook_props \<Rightarrow> webhook_props
     \<Rightarrow> api_call list \<times> (error + int)" where
  "GithubWebhookProvider_update ghToken octokit ident olds news =
     (let auth = Authenticate (str ''token'') ghToken;
          call =
            ReposEditHook ident (owner news) (repo news) (events news)
              (EditConfig (str ''json'') (url news))
      in case octokit call of
           Inl e \<Rightarrow> ([auth, call], Inl e)
         | Inr res \<Rightarrow> ([auth, call], Inr (data_id res)))"

definition GithubWebhookProvider_delete ::
  "jsstring \<Rightarrow> remote \<Rightarrow> jsstring \<Rightarrow> webhook_props \<Rightarrow> api_call list \<times> (error + unit)" where
  "GithubWebhookProvider_delete ghToken octokit ident props =
     (let auth = Authenticate (str ''token'') ghToken;
          call =
            (if truthy (org props)
             then OrgsDeleteHook ident (org props)
             else ReposDeleteHook ident (owner props) (repo props))
      in case octokit call of
           Inl e \<Rightarrow> ([auth, call], Inl e)
         | Inr res \<Rightarrow>
             if status res \<noteq> 204 then ([auth, call], Inl (BadResponse res))
             else ([auth, call], Inr ()))"

section \<open>The webhook ingestion gateway (the route handler of \<open>GitHubWebhook\<close>)\<close>

text \<open>
  A request of the HTTP substrate: its headers by name (\<open>None\<close> when the header is
  absent), its body (\<open>None\<close> for \<open>null\<close>) and the transport's base64 flag.
\<close>

record request =
  headers :: "string \<Rightarrow> jsstring option"
  body :: "jsstring option"
  isBase64Encoded :: bool

text \<open>The result of \<open>JSON.parse\<close>, the \<open>data\<close> handed to the application.\<close>

datatype json =
    JNull
  | JBool bool
  | JNumber jsnum
  | JString jsstring
  | JArray "json list"
  | JObject "(jsstring \<times> json) list"

text \<open>\<open>GitHubWebhookRequest\<close>: \<open>{request, type, id, data}\<close>.\<close>

datatype GitHubWebhookRequest =
  GitHubWebhookRequest (request: request) (event_type: jsstring) (event_id: jsstring)
    (data: json)

text \<open>The route's result: \<open>{statusCode, body}\<close>.\<close>

datatype http_response = HttpResponse (statusCode: int) (response_body: jsstring)

text \<open>
  What the handler does besides returning, in order: its calls on \<open>crypto\<close>, on the
  console, on \<open>JSON.parse\<close> and on the application's handler.
\<close>

datatype effect =
    CreateHmac jsstring jsstring
  | HmacUpdate "byte list"
  | HmacDigest jsstring
  | TimingSafeEqual "byte list" "byte list"
  | ConsoleLog jsstring
  | JsonParse jsstring
  | HandlerCall GitHubWebhookRequest

text \<open>
  The handler after its guard on the four inputs, which are strings from here on.
  Its surroundings are parameters: \<open>secretValue\<close> is \<open>secret.value.get()\<close>;
  \<open>base64_buffer\<close> is \<open>Buffer.from(_, "base64")\<close>; \<open>to_string\<close> is \<open>buf.toString()\<close>;
  \<open>JSON_parse\<close> is \<open>JSON.parse\<close>, \<open>None\<close> when it throws; \<open>handler\<close> is
  \<open>args.handler\<close>, awaited, \<open>Some e\<close> when it rejects with \<open>e\<close>.
\<close>

definition verify_and_dispatch ::
  "jsstring \<Rightarrow> (jsstring \<Rightarrow> byte list) \<Rightarrow> (byte list \<Rightarrow> jsstring) \<Rightarrow> (jsstring \<Rightarrow> json option)
     \<Rightarrow> (GitHubWebhookRequest \<Rightarrow> error option) \<Rightarrow> request
     \<Rightarrow> jsstring \<Rightarrow> jsstring \<Rightarrow> jsstring \<Rightarrow> jsstring \<Rightarrow> effect list \<times> (error + http_response)" where
  "verify_and_dispatch secretValue base64_buffer to_string JSON_parse handler req
       eventType eventId eventSig reqBody =
     (let buf = (if isBase64Encoded req then base64_buffer reqBody else utf8_encode reqBody);
          digest = str ''sha1='' @ hex (hmac_sha1 (utf8_encode secretValue) buf);
          fx = [CreateHmac (str ''sha1'') secretValue, HmacUpdate buf, HmacDigest (str ''hex''),
                TimingSafeEqual (utf8_encode eventSig) (utf8_encode digest)]
      in case timingSafeEqual (utf8_encode eventSig) (utf8_encode digest) of
           Inl e \<Rightarrow> (fx, Inl e)
         | Inr False \<Rightarrow>
             (fx @ [ConsoleLog (str ''['' @ eventId @ str ''] ignorning, bad signature ''
                                 @ digest @ str '' != '' @ eventSig)],
              Inr (HttpResponse 400 (str ''bad signature'')))
         | Inr True \<Rightarrow>
             (case JSON_parse (to_string buf) of
                None \<Rightarrow> (fx @ [JsonParse (to_string buf)], Inl JsonSyntaxError)
              | Some event \<Rightarrow>
                  (let wr = GitHubWebhookRequest req eventType eventId event;
                       fx' = fx @ [JsonParse (to_string buf), HandlerCall wr]
                   in case handler wr of
                        Some e \<Rightarrow> (fx', Inl e)
                      | None \<Rightarrow> (fx', Inr (HttpResponse 200 (str ''''))))))"

definition GitHubWebhook_route_handler ::
  "jsstring \<Rightarrow> (jsstring \<Rightarrow> byte list) \<Rightarrow> (byte list \<Rightarrow> jsstring) \<Rightarrow> (jsstring \<Rightarrow> json option)
     \<Rightarrow> (GitHubWebhookRequest \<Rightarrow> error option) \<Rightarrow> request
     \<Rightarrow> effect list \<times> (error + http_response)" where
  "GitHubWebhook_route_handler secretValue base64_buffer to_string JSON_parse handler req =
     (let eventType = headers req ''X-GitHub-Event'';
          eventId = headers req ''X-GitHub-Delivery'';
          eventSig = headers req ''X-Hub-Signature''
      in if \<not> (truthy eventType \<and> truthy eventId \<and> truthy eventSig \<and> truthy (body req))
         then ([], Inr (HttpResponse 400 (str ''missing parameter'')))
         else verify_and_dispatch secretValue base64_buffer to_string JSON_parse handler req
                (the eventType) (the eventId) (the eventSig) (the (body req)))"

section \<open>Properties of the buffer encodings\<close>


lemma unat_of_nat16: "n < 65536 \<Longrightarrow> unat (of_nat n :: 16 word) = n"
  by (simp add: unat_of_nat)

lemma unat_b64_char:
  "i < 64 \<Longrightarrow> unat (b64_char i) =
     (if i < 26 then 65 + i else if i < 52 then 71 + i else if i < 62 then i - 4
      else if i = 62 then 43 else 47)"
  unfolding b64_char_def
  by (simp add: unat_of_nat16 del: of_nat_add of_nat_diff of_nat_numeral)

lemma b64_index_char: "i < 64 \<Longrightarrow> b64_index (b64_char i) = Some i"
  unfolding b64_index_def Let_def
  by (simp only: unat_b64_char) auto

lemma b64_char_not_pad: "i < 64 \<Longrightarrow> b64_char i \<noteq> b64_pad"
proof
  assume i: "i < 64" and eq: "b64_char i = b64_pad"
  from eq have "unat (b64_char i) = 61" by (simp add: b64_pad_def)
  with i show False by (simp add: unat_b64_char split: if_splits)
qed

lemma sextets_join:
  "(n div 262144) * 262144 + (n div 4096 mod 64) * 4096 + (n div 64 mod 64) * 64 + n mod 64
       = (n::nat)"
proof -
  have a: "n mod 4096 = 64 * (n div 64 mod 64) + n mod 64"
    using mod_mult2_eq [of n 64 64] by simp
  have b: "n mod 262144 = 4096 * (n div 4096 mod 64) + n mod 4096"
    using mod_mult2_eq [of n 4096 64] by simp
  have c: "n = 262144 * (n div 262144) + n mod 262144"
    by simp
  show ?thesis using a b c by linarith
qed

lemma byte_lt: "unat (a :: byte) < 256"
  using unsigned_less [of a] by simp

lemma triple_bytes:
  fixes x y z :: nat
  assumes "x < 256" "y < 256" "z < 256"
  shows "x * 65536 + y * 256 + z < 16777216"
    and "(x * 65536 + y * 256 + z) div 65536 = x"
    and "(x * 65536 + y * 256 + z) div 256 mod 256 = y"
    and "(x * 65536 + y * 256 + z) mod 256 = z"
proof -
  show "x * 65536 + y * 256 + z < 16777216" using assms by linarith
  have r: "y * 256 + z < 65536" using assms by linarith
  have "(y * 256 + z + x * 65536) div 65536 = x + (y * 256 + z) div 65536"
    using div_mult_self1 [of 65536 "y * 256 + z" x] by simp
  with r show "(x * 65536 + y * 256 + z) div 65536 = x" by (simp add: add.commute add.left_commute)
  have "(z + (x * 256 + y) * 256) div 256 = (x * 256 + y) + z div 256"
    using div_mult_self1 [of 256 z "x * 256 + y"] by simp
  then have d: "(x * 65536 + y * 256 + z) div 256 = x * 256 + y"
    using assms by (simp add: algebra_simps)
  show "(x * 65536 + y * 256 + z) div 256 mod 256 = y"
    unfolding d using assms by simp
  have "(z + (x * 256 + y) * 256) mod 256 = z mod 256"
    by (rule mod_mult_self1)
  then show "(x * 65536 + y * 256 + z) mod 256 = z"
    using assms by (simp add: algebra_simps)
qed

lemma base64_decode_three:
  fixes a b c :: byte
  defines "n \<equiv> unat a * 65536 + unat b * 256 + unat c"
  shows "base64_decode (b64_char (n div 262144) # b64_char (n div 4096 mod 64)
            # b64_char (n div 64 mod 64) # b64_char (n mod 64) # rest)
         = (case base64_decode rest of None \<Rightarrow> None | Some bs \<Rightarrow> Some (a # b # c # bs))"
proof -
  have n: "n < 16777216" and a: "n div 65536 = unat a"
    and b: "n div 256 mod 256 = unat b" and c: "n mod 256 = unat c"
    unfolding n_def using triple_bytes [OF byte_lt [of a] byte_lt [of b] byte_lt [of c]]
    by blast+
  have i: "n div 262144 < 64" "n div 4096 mod 64 < 64" "n div 64 mod 64 < 64" "n mod 64 < 64"
    using n by simp_all
  have j: "n div 262144 * 262144 + n div 4096 mod 64 * 4096 + n div 64 mod 64 * 64 + n mod 64 = n"
    by (rule sextets_join)
  show ?thesis
    by (cases "base64_decode rest")
       (simp_all add: b64_index_char b64_char_not_pad i j a b c del: of_nat_add of_nat_mult)
qed

lemma base64_decode_two:
  fixes a b :: byte
  defines "n \<equiv> unat a * 65536 + unat b * 256"
  shows "base64_decode [b64_char (n div 262144), b64_char (n div 4096 mod 64),
            b64_char (n div 64 mod 64), b64_pad] = Some [a, b]"
proof -
  have n: "n < 16777216" and a: "n div 65536 = unat a" and b: "n div 256 mod 256 = unat b"
    and c: "n mod 256 = 0"
    unfolding n_def using triple_bytes [OF byte_lt [of a] byte_lt [of b], of 0]
    by simp_all
  have i: "n div 262144 < 64" "n div 4096 mod 64 < 64" "n div 64 mod 64 < 64"
    using n by simp_all
  define m where "m = n div 262144 * 4096 + n div 4096 mod 64 * 64 + n div 64 mod 64"
  have "n mod 64 = 0" using c mod_mod_cancel [of 64 256 n] by simp
  then have "n = m * 64"
    using sextets_join [of n] by (simp add: m_def algebra_simps)
  then have "m div 1024 = unat a" "m div 4 mod 256 = unat b"
    using a b by (simp_all add: div_mult2_eq)
  then show ?thesis
    by (simp add: b64_index_char b64_char_not_pad i m_def [symmetric]
          del: of_nat_add of_nat_mult)
qed

lemma base64_decode_one:
  fixes a :: byte
  defines "n \<equiv> unat a * 65536"
  shows "base64_decode [b64_char (n div 262144), b64_char (n div 4096 mod 64), b64_pad, b64_pad]
         = Some [a]"
proof -
  have n: "n < 16777216" and a: "n div 65536 = unat a"
    unfolding n_def using byte_lt [of a] by simp_all
  have i: "n div 262144 < 64" "n div 4096 mod 64 < 64"
    using n by simp_all
  define m where "m = n div 262144 * 64 + n div 4096 mod 64"
  have "n div 262144 = n div 4096 div 64"
    using div_mult2_eq [of n 4096 64] by simp
  then have "n div 4096 = m"
    using div_mult_mod_eq [of "n div 4096" 64] by (simp add: m_def)
  then have "m div 16 = unat a"
    using a by (simp add: div_mult2_eq)
  then show ?thesis
    by (simp add: b64_index_char b64_char_not_pad i m_def [symmetric]
          del: of_nat_add of_nat_mult)
qed

text \<open>
  Decoding undoes encoding: \<open>toString("base64")\<close> loses no byte.
\<close>

lemma base64_roundtrip: "base64_decode (base64_encode bs) = Some bs"
proof (induction bs rule: base64_encode.induct)
  case 1
  show ?case by simp
next
  case (2 a)
  show ?case using base64_decode_one [of a] by (simp add: Let_def)
next
  case (3 a b)
  show ?case using base64_decode_two [of a b] by (simp add: Let_def)
next
  case (4 a b c rest)
  show ?case using base64_decode_three [of a b c "base64_encode rest"] 4
    by (simp add: Let_def)
qed

lemma ascii_not_surrogate:
  "unat (c :: 16 word) < 128 \<Longrightarrow> \<not> is_high_surrogate c \<and> \<not> is_low_surrogate c"
  by (simp add: is_high_surrogate_def is_low_surrogate_def word_le_nat_alt)

lemma utf8_encode_ascii_length:
  "\<forall>c\<in>set s. unat c < 128 \<Longrightarrow> length (utf8_encode s) = length s"
proof (induction s rule: utf8_encode.induct)
  case 1
  show ?case by simp
next
  case (2 c)
  then show ?case by (simp add: ascii_not_surrogate utf8_of_code_point_def)
next
  case (3 c d cs)
  then show ?case by (simp add: ascii_not_surrogate utf8_of_code_point_def)
qed

lemma unat_hex_digit: "n < 16 \<Longrightarrow> unat (hex_digit n) < 128"
  unfolding hex_digit_def
  by (simp add: unat_of_nat16 del: of_nat_add of_nat_numeral)

lemma hex_ascii: "\<forall>c\<in>set (hex bs). unat c < 128"
proof (induction bs)
  case Nil
  show ?case by (simp add: hex_def)
next
  case (Cons b bs)
  have "unat b div 16 < 16" using byte_lt [of b] by simp
  then show ?case using Cons by (simp add: hex_def unat_hex_digit)
qed

lemma length_hex: "length (hex bs) = 2 * length bs"
  by (induction bs) (simp_all add: hex_def)

lemma length_sha1: "length (sha1 m) = 20"
  by (simp add: sha1_def Let_def be_bytes32_def split: prod.split)

lemma length_hmac_sha1: "length (hmac_sha1 key m) = 20"
  by (simp add: hmac_sha1_def Let_def length_sha1)

lemma str_sha1_ascii: "\<forall>c\<in>set (str ''sha1=''). unat c < 128"
  by (simp add: str_def)

text \<open>
  The digest string \<open>sha1=<hex>\<close> is 45 characters of ASCII, so 45 bytes.
\<close>

lemma length_digest:
  "length (utf8_encode (str ''sha1='' @ hex (hmac_sha1 key m))) = 45"
proof -
  have "\<forall>c\<in>set (str ''sha1='' @ hex (hmac_sha1 key m)). unat c < 128"
    using str_sha1_ascii hex_ascii [of "hmac_sha1 key m"] by auto
  then have "length (utf8_encode (str ''sha1='' @ hex (hmac_sha1 key m)))
               = length (str ''sha1='' @ hex (hmac_sha1 key m))"
    by (rule utf8_encode_ascii_length)
  then show ?thesis by (simp add: length_hex length_hmac_sha1 str_def)
qed

lemma verify_and_dispatch_length_mismatch:
  assumes "length (utf8_encode eventSig) \<noteq> 45"
  shows "verify_and_dispatch secretValue base64_buffer to_string JSON_parse handler req
           eventType eventId eventSig reqBody =
         (let buf = (if isBase64Encoded req then base64_buffer reqBody else utf8_encode reqBody);
              digest = str ''sha1='' @ hex (hmac_sha1 (utf8_encode secretValue) buf)
          in ([CreateHmac (str ''sha1'') secretValue, HmacUpdate buf, HmacDigest (str ''hex''),
               TimingSafeEqual (utf8_encode eventSig) (utf8_encode digest)],
              Inl TimingSafeEqualLength))"
  using assms
  by (simp add: verify_and_dispatch_def Let_def timingSafeEqual_def length_digest)

section \<open>The gateway\<close>

text \<open>
  Claim C1.  A request with all four inputs whose signature header differs from
  \<open>sha1=<hex HMAC-SHA1 of the body>\<close> should be answered 400 with a diagnostic body and
  a log line, without parsing the body or calling the application.  The handler does not
  do so for the signature \<open>sha1=abc\<close>: it differs from the digest, its 8 bytes are not
  the digest's 45, \<open>timingSafeEqual\<close> throws, and the handler ends with that error after
  its four calls on \<open>crypto\<close>: no response and no log line.
\<close>

theorem route_handler_short_signature_throws:
  "str ''sha1=abc'' \<noteq> str ''sha1='' @ hex (hmac_sha1 (utf8_encode secretValue) (utf8_encode (str ''{}'')))
   \<and> GitHubWebhook_route_handler secretValue base64_buffer to_string JSON_parse handler
       \<lparr>headers = [''X-GitHub-Event'' \<mapsto> str ''push'', ''X-GitHub-Delivery'' \<mapsto> str ''7'',
                   ''X-Hub-Signature'' \<mapsto> str ''sha1=abc''],
        body = Some (str ''{}''), isBase64Encoded = False\<rparr>
     = ([CreateHmac (str ''sha1'') secretValue, HmacUpdate (utf8_encode (str ''{}'')),
         HmacDigest (str ''hex''),
         TimingSafeEqual (utf8_encode (str ''sha1=abc''))
           (utf8_encode (str ''sha1='' @ hex (hmac_sha1 (utf8_encode secretValue) (utf8_encode (str ''{}'')))))],
        Inl TimingSafeEqualLength)"
proof -
  let ?d = "str ''sha1='' @ hex (hmac_sha1 (utf8_encode secretValue) (utf8_encode (str ''{}'')))"
  have len: "length (utf8_encode (str ''sha1=abc'')) = 8"
    by (simp add: str_def utf8_of_code_point_def is_high_surrogate_def is_low_surrogate_def)
  have "length (utf8_encode ?d) = 45" by (rule length_digest)
  with len have ne: "str ''sha1=abc'' \<noteq> ?d" by auto
  have "verify_and_dispatch secretValue base64_buffer to_string JSON_parse handler
       \<lparr>headers = [''X-GitHub-Event'' \<mapsto> str ''push'', ''X-GitHub-Delivery'' \<mapsto> str ''7'',
                   ''X-Hub-Signature'' \<mapsto> str ''sha1=abc''],
        body = Some (str ''{}''), isBase64Encoded = False\<rparr>
        (str ''push'') (str ''7'') (str ''sha1=abc'') (str ''{}'')
     = ([CreateHmac (str ''sha1'') secretValue, HmacUpdate (utf8_encode (str ''{}'')),
         HmacDigest (str ''hex''), TimingSafeEqual (utf8_encode (str ''sha1=abc'')) (utf8_encode ?d)],
        Inl TimingSafeEqualLength)"
    using len by (simp add: verify_and_dispatch_length_mismatch Let_def)
  then show ?thesis using ne
    by (simp add: GitHubWebhook_route_handler_def truthy_def Let_def str_def)
qed

theorem route_handler_short_signature_throws_witness:
  "snd (GitHubWebhook_route_handler (str ''k'') (\<lambda>s. []) (map ucast) (\<lambda>s. Some (JObject []))
       (\<lambda>w. None)
       \<lparr>headers = [''X-GitHub-Event'' \<mapsto> str ''push'', ''X-GitHub-Delivery'' \<mapsto> str ''7'',
                   ''X-Hub-Signature'' \<mapsto> str ''sha1=abc''],
        body = Some (str ''{}''), isBase64Encoded = False\<rparr>)
   = Inl TimingSafeEqualLength"
  using route_handler_short_signature_throws [of "str ''k''" "\<lambda>s. []" "map ucast"
      "\<lambda>s. Some (JObject [])" "\<lambda>w. None"]
  by simp

text \<open>
  When the signature has the digest's 45 bytes and differs from it, the handler does
  answer 400, after logging, and neither parses nor dispatches.
\<close>

lemma route_handler_bad_signature_same_length:
  assumes "headers req ''X-GitHub-Event'' = Some eventType" and "eventType \<noteq> []"
    and "headers req ''X-GitHub-Delivery'' = Some eventId" and "eventId \<noteq> []"
    and "headers req ''X-Hub-Signature'' = Some eventSig"
    and "body req = Some reqBody" and "reqBody \<noteq> []"
    and "buf = (if isBase64Encoded req then base64_buffer reqBody else utf8_encode reqBody)"
    and "digest = str ''sha1='' @ hex (hmac_sha1 (utf8_encode secretValue) buf)"
    and "length (utf8_encode eventSig) = 45"
    and "utf8_encode eventSig \<noteq> utf8_encode digest"
  shows "GitHubWebhook_route_handler secretValue base64_buffer to_string JSON_parse handler req
         = ([CreateHmac (str ''sha1'') secretValue, HmacUpdate buf, HmacDigest (str ''hex''),
             TimingSafeEqual (utf8_encode eventSig) (utf8_encode digest),
             ConsoleLog (str ''['' @ eventId @ str ''] ignorning, bad signature '' @ digest
                         @ str '' != '' @ eventSig)],
            Inr (HttpResponse 400 (str ''bad signature'')))"
proof -
  have "eventSig \<noteq> []" using assms(10) by auto
  then show ?thesis
    using assms
    by (simp add: GitHubWebhook_route_handler_def verify_and_dispatch_def truthy_def Let_def
          timingSafeEqual_def length_digest)
qed

text \<open>
  Claim C2, as amended.  When the three headers and the body are present and not empty,
  the signature header is \<open>sha1=\<close> followed by the hex HMAC-SHA1 of the body's bytes (the
  base64 decoding of the body when the transport flags it, its UTF-8 encoding otherwise)
  keyed by the secret, and \<open>JSON.parse\<close> accepts the body, the handler parses it, calls the
  application with \<open>{request, type, id, data}\<close> and then answers 200 with an empty body
  when the application completes, or ends with the application's error when it rejects.
\<close>

theorem route_handler_accepts_signed_request:
  assumes "headers req ''X-GitHub-Event'' = Some eventType" and "eventType \<noteq> []"
    and "headers req ''X-GitHub-Delivery'' = Some eventId" and "eventId \<noteq> []"
    and "body req = Some reqBody" and "reqBody \<noteq> []"
    and "buf = (if isBase64Encoded req then base64_buffer reqBody else utf8_encode reqBody)"
    and "digest = str ''sha1='' @ hex (hmac_sha1 (utf8_encode secretValue) buf)"
    and "headers req ''X-Hub-Signature'' = Some digest"
    and "JSON_parse (to_string buf) = Some event"
    and "wr = GitHubWebhookRequest req eventType eventId event"
  shows "GitHubWebhook_route_handler secretValue base64_buffer to_string JSON_parse handler req
         = ([CreateHmac (str ''sha1'') secretValue, HmacUpdate buf, HmacDigest (str ''hex''),
             TimingSafeEqual (utf8_encode digest) (utf8_encode digest),
             JsonParse (to_string buf), HandlerCall wr],
            (case handler wr of None \<Rightarrow> Inr (HttpResponse 200 (str '''')) | Some e \<Rightarrow> Inl e))"
proof -
  have "digest \<noteq> []" using assms(8) by (simp add: str_def)
  then show ?thesis
    using assms
    by (cases "handler wr")
       (simp_all add: GitHubWebhook_route_handler_def verify_and_dispatch_def truthy_def Let_def
          timingSafeEqual_def)
qed

theorem route_handler_accepts_signed_request_witness:
  "GitHubWebhook_route_handler (str ''k'') (\<lambda>s. []) (map ucast)
     (\<lambda>s. if s = str ''{}'' then Some (JObject []) else None) (\<lambda>w. None)
     \<lparr>headers = [''X-GitHub-Event'' \<mapsto> str ''push'', ''X-GitHub-Delivery'' \<mapsto> str ''7'',
                 ''X-Hub-Signature'' \<mapsto>
                   str ''sha1='' @ hex (hmac_sha1 (utf8_encode (str ''k'')) (utf8_encode (str ''{}'')))],
      body = Some (str ''{}''), isBase64Encoded = False\<rparr>
   = ([CreateHmac (str ''sha1'') (str ''k''), HmacUpdate (utf8_encode (str ''{}'')),
       HmacDigest (str ''hex''),
       TimingSafeEqual
         (utf8_encode (str ''sha1='' @ hex (hmac_sha1 (utf8_encode (str ''k'')) (utf8_encode (str ''{}'')))))
         (utf8_encode (str ''sha1='' @ hex (hmac_sha1 (utf8_encode (str ''k'')) (utf8_encode (str ''{}''))))),
       JsonParse (str ''{}''),
       HandlerCall (GitHubWebhookRequest
         \<lparr>headers = [''X-GitHub-Event'' \<mapsto> str ''push'', ''X-GitHub-Delivery'' \<mapsto> str ''7'',
                 ''X-Hub-Signature'' \<mapsto>
                   str ''sha1='' @ hex (hmac_sha1 (utf8_encode (str ''k'')) (utf8_encode (str ''{}'')))],
          body = Some (str ''{}''), isBase64Encoded = False\<rparr>
         (str ''push'') (str ''7'') (JObject []))],
      Inr (HttpResponse 200 (str '''')))"
  using route_handler_accepts_signed_request [where
      req = "\<lparr>headers = [''X-GitHub-Event'' \<mapsto> str ''push'', ''X-GitHub-Delivery'' \<mapsto> str ''7'',
                 ''X-Hub-Signature'' \<mapsto>
                   str ''sha1='' @ hex (hmac_sha1 (utf8_encode (str ''k'')) (utf8_encode (str ''{}'')))],
              body = Some (str ''{}''), isBase64Encoded = False\<rparr>"
      and eventType = "str ''push''" and eventId = "str ''7''" and reqBody = "str ''{}''"
      and buf = "utf8_encode (str ''{}'')" and base64_buffer = "\<lambda>s. []"
      and digest = "str ''sha1='' @ hex (hmac_sha1 (utf8_encode (str ''k'')) (utf8_encode (str ''{}'')))"
      and secretValue = "str ''k''" and to_string = "map ucast"
      and JSON_parse = "\<lambda>s. if s = str ''{}'' then Some (JObject []) else None"
      and event = "JObject []" and handler = "\<lambda>w. None"
      and wr = "GitHubWebhookRequest
         \<lparr>headers = [''X-GitHub-Event'' \<mapsto> str ''push'', ''X-GitHub-Delivery'' \<mapsto> str ''7'',
                 ''X-Hub-Signature'' \<mapsto>
                   str ''sha1='' @ hex (hmac_sha1 (utf8_encode (str ''k'')) (utf8_encode (str ''{}'')))],
          body = Some (str ''{}''), isBase64Encoded = False\<rparr>
         (str ''push'') (str ''7'') (JObject [])"]
  by (simp add: str_def utf8_of_code_point_def is_high_surrogate_def is_low_surrogate_def)

text \<open>
  The claim as stated fails on a request whose \<open>X-GitHub-Event\<close> header is present
  and empty: its signature is the digest of its body, and the handler answers 400.
\<close>

theorem route_handler_empty_event_header_rejected:
  "GitHubWebhook_route_handler (str ''k'') (\<lambda>s. []) (map ucast)
     (\<lambda>s. if s = str ''{}'' then Some (JObject []) else None) (\<lambda>w. None)
     \<lparr>headers = [''X-GitHub-Event'' \<mapsto> str '''', ''X-GitHub-Delivery'' \<mapsto> str ''7'',
                 ''X-Hub-Signature'' \<mapsto>
                   str ''sha1='' @ hex (hmac_sha1 (utf8_encode (str ''k'')) (utf8_encode (str ''{}'')))],
      body = Some (str ''{}''), isBase64Encoded = False\<rparr>
   = ([], Inr (HttpResponse 400 (str ''missing parameter'')))"
  by (simp add: GitHubWebhook_route_handler_def truthy_def str_def)

text \<open>
  A signed body that \<open>JSON.parse\<close> refuses ends the handler with the syntax error,
  before any call of the application.
\<close>

lemma route_handler_unparsable_body:
  assumes "headers req ''X-GitHub-Event'' = Some eventType" and "eventType \<noteq> []"
    and "headers req ''X-GitHub-Delivery'' = Some eventId" and "eventId \<noteq> []"
    and "body req = Some reqBody" and "reqBody \<noteq> []"
    and "buf = (if isBase64Encoded req then base64_buffer reqBody else utf8_encode reqBody)"
    and "digest = str ''sha1='' @ hex (hmac_sha1 (utf8_encode secretValue) buf)"
    and "headers req ''X-Hub-Signature'' = Some digest"
    and "JSON_parse (to_string buf) = None"
  shows "GitHubWebhook_route_handler secretValue base64_buffer to_string JSON_parse handler req
         = ([CreateHmac (str ''sha1'') secretValue, HmacUpdate buf, HmacDigest (str ''hex''),
             TimingSafeEqual (utf8_encode digest) (utf8_encode digest),
             JsonParse (to_string buf)],
            Inl JsonSyntaxError)"
proof -
  have "digest \<noteq> []" using assms(8) by (simp add: str_def)
  then show ?thesis
    using assms
    by (simp add: GitHubWebhook_route_handler_def verify_and_dispatch_def truthy_def Let_def
          timingSafeEqual_def)
qed

text \<open>
  Claim C3.  A request that lacks any of the event-type header, the delivery-id header,
  the signature header or the body is answered 400 with the body
  \<open>missing parameter\<close>, and the handler does nothing else: no call on \<open>crypto\<close>, on
  \<open>JSON.parse\<close> or on the application.
\<close>

theorem route_handler_missing_input:
  assumes "headers req ''X-GitHub-Event'' = None \<or> headers req ''X-GitHub-Delivery'' = None
           \<or> headers req ''X-Hub-Signature'' = None \<or> body req = None"
  shows "GitHubWebhook_route_handler secretValue base64_buffer to_string JSON_parse handler req
         = ([], Inr (HttpResponse 400 (str ''missing parameter'')))"
  using assms by (auto simp add: GitHubWebhook_route_handler_def truthy_def)

theorem route_handler_missing_input_witness:
  "GitHubWebhook_route_handler (str ''k'') (\<lambda>s. []) (\<lambda>b. []) (\<lambda>s. Some JNull) (\<lambda>w. None)
     \<lparr>headers = [''X-GitHub-Event'' \<mapsto> str ''push'', ''X-GitHub-Delivery'' \<mapsto> str ''7''],
      body = Some (str ''{}''), isBase64Encoded = False\<rparr>
   = ([], Inr (HttpResponse 400 (str ''missing parameter'')))"
  using route_handler_missing_input [of
      "\<lparr>headers = [''X-GitHub-Event'' \<mapsto> str ''push'', ''X-GitHub-Delivery'' \<mapsto> str ''7''],
        body = Some (str ''{}''), isBase64Encoded = False\<rparr>"
      "str ''k''" "\<lambda>s. []" "\<lambda>b. []" "\<lambda>s. Some JNull" "\<lambda>w. None"]
  by simp



section \<open>The secret generator\<close>

text \<open>
  Claim C4.  \<open>create\<close> with \<open>byteCount = N\<close> should return the encoding of \<open>N\<close>
  random bytes, as both the identity and the output value.  The identity is the output
  value, but with \<open>byteCount = 16\<close> it decodes to the 32 bytes drawn: \<open>create\<close> never
  reads \<open>byteCount\<close>.
\<close>

theorem RandomProvider_create_32:
  "base64_decode (random_id (RandomProvider_create src \<lparr>byteCount = Some (Fin 16)\<rparr>))
     = Some (randomBytes 32 src)
   \<and> length (randomBytes 32 src) = 32
   \<and> outs_value (RandomProvider_create src \<lparr>byteCount = Some (Fin 16)\<rparr>)
       = random_id (RandomProvider_create src \<lparr>byteCount = Some (Fin 16)\<rparr>)"
  by (simp add: RandomProvider_create_def Let_def base64_roundtrip randomBytes_def)

theorem RandomProvider_create_32_witness:
  "base64_decode (random_id (RandomProvider_create (\<lambda>i. of_nat i) \<lparr>byteCount = Some (Fin 16)\<rparr>))
     = Some (randomBytes 32 (\<lambda>i. of_nat i))
   \<and> length (randomBytes 32 (\<lambda>i. of_nat i :: byte)) = 32"
  using RandomProvider_create_32 [of "\<lambda>i. of_nat i"]
  by simp

text \<open>
  Claim C5.  \<open>check\<close> should fail exactly when \<open>byteCount\<close> is missing or not a
  positive number.  It reports \<open>'byteCount' should be a positive number\<close> for 32, as for
  every finite number, and reports nothing for \<open>NaN\<close>; a missing \<open>byteCount\<close> is
  reported as missing.
\<close>

theorem RandomProvider_check_rejects_numbers:
  "failedChecks (RandomProvider_check olds \<lparr>byteCount = Some (Fin 32)\<rparr>)
     = [\<lparr>property = ''byteCount'', reason = '''byteCount' should be a positive number''\<rparr>]
   \<and> failedChecks (RandomProvider_check olds \<lparr>byteCount = Some (Fin q)\<rparr>) \<noteq> []
   \<and> failedChecks (RandomProvider_check olds \<lparr>byteCount = Some NaN\<rparr>) = []
   \<and> failedChecks (RandomProvider_check olds \<lparr>byteCount = None\<rparr>)
       = [\<lparr>property = ''byteCount'', reason = ''required property 'byteCount' missing''\<rparr>]"
  by (simp add: RandomProvider_check_def isNaN_def le_zero_def)

theorem RandomProvider_check_rejects_numbers_witness:
  "failedChecks (RandomProvider_check \<lparr>byteCount = None\<rparr> \<lparr>byteCount = Some (Fin 32)\<rparr>)
     = [\<lparr>property = ''byteCount'', reason = '''byteCount' should be a positive number''\<rparr>]"
  using RandomProvider_check_rejects_numbers [of "\<lparr>byteCount = None\<rparr>" 1]
  by simp

lemma RandomProvider_diff_replaces:
  "RandomProvider_diff ident olds news
     = (if byteCount olds = byteCount news then [] else [''byteCount''])"
  by (simp add: RandomProvider_diff_def)

section \<open>The webhook registration\<close>

text \<open>
  Claim C6.  \<open>check\<close> returns the proposed inputs and, in one pass, one failure for
  each violated constraint, in this order: \<open>url\<close> when \<open>url\<close> is absent; \<open>org\<close> when
  \<open>org\<close> is set together with \<open>owner\<close> or \<open>repo\<close>; \<open>repo\<close> when \<open>owner\<close> is set
  without \<open>repo\<close>; \<open>owner\<close> when \<open>repo\<close> is set without \<open>owner\<close>.
\<close>

theorem GithubWebhookProvider_check_failures:
  "inputs (GithubWebhookProvider_check olds news) = news
   \<and> map property (failedChecks (GithubWebhookProvider_check olds news)) =
       (if url news = None then [''url''] else [])
       @ (if org news \<noteq> None \<and> (owner news \<noteq> None \<or> repo news \<noteq> None) then [''org''] else [])
       @ (if owner news \<noteq> None \<and> repo news = None then [''repo''] else [])
       @ (if repo news \<noteq> None \<and> owner news = None then [''owner''] else [])"
  by (simp add: GithubWebhookProvider_check_def Let_def)

theorem GithubWebhookProvider_check_failures_witness:
  "map property (failedChecks (GithubWebhookProvider_check
      \<lparr>url = None, owner = None, repo = None, org = None, events = None, secret = None\<rparr>
      \<lparr>url = None, owner = Some (str ''o''), repo = None, org = Some (str ''acme''),
       events = Some [str ''push''], secret = Some (str ''k'')\<rparr>))
   = [''url'', ''org'', ''repo'']"
  using GithubWebhookProvider_check_failures [of
      "\<lparr>url = None, owner = None, repo = None, org = None, events = None, secret = None\<rparr>"
      "\<lparr>url = None, owner = Some (str ''o''), repo = None, org = Some (str ''acme''),
       events = Some [str ''push''], secret = Some (str ''k'')\<rparr>"]
  by simp






text \<open>
  Claim C10.  \<open>update\<close> always calls the repository's \<open>editHook\<close>, with \<open>owner\<close> and
  \<open>repo\<close> as proposed (\<open>undefined\<close> for a hook of an organization), the events and the
  configuration \<open>{content_type: "json", url}\<close>; the call does not depend on the secret.
  Whatever the status of the response, \<open>update\<close> returns the identifier of its data.
\<close>

theorem GithubWebhookProvider_update_ignores_status:
  assumes "octokit (ReposEditHook ident (owner news) (repo news) (events news)
                      (EditConfig (str ''json'') (url news))) = Inr (Response st hook)"
  shows "GithubWebhookProvider_update ghToken octokit ident olds news =
           ([Authenticate (str ''token'') ghToken,
             ReposEditHook ident (owner news) (repo news) (events news)
               (EditConfig (str ''json'') (url news))],
            Inr hook)
         \<and> GithubWebhookProvider_update ghToken octokit ident olds (news\<lparr>secret := s\<rparr>)
             = GithubWebhookProvider_update ghToken octokit ident olds news"
  using assms by (simp add: GithubWebhookProvider_update_def)

theorem GithubWebhookProvider_update_ignores_status_witness:
  "GithubWebhookProvider_update (str ''t'') (\<lambda>c. Inr (Response 404 0)) (str ''12345'')
      \<lparr>url = Some (str ''u''), owner = None, repo = None, org = Some (str ''acme''),
       events = Some [str ''push''], secret = Some (str ''k'')\<rparr>
      \<lparr>url = Some (str ''v''), owner = None, repo = None, org = Some (str ''acme''),
       events = Some [str ''push''], secret = Some (str ''k'')\<rparr>
   = ([Authenticate (str ''token'') (str ''t''),
       ReposEditHook (str ''12345'') None None (Some [str ''push''])
         (EditConfig (str ''json'') (Some (str ''v'')))],
      Inr 0)"
  using GithubWebhookProvider_update_ignores_status [where
      octokit = "\<lambda>c. Inr (Response 404 0)" and ident = "str ''12345''" and ghToken = "str ''t''"
      and st = 404 and hook = 0
      and olds = "\<lparr>url = Some (str ''u''), owner = None, repo = None, org = Some (str ''acme''),
       events = Some [str ''push''], secret = Some (str ''k'')\<rparr>"
      and news = "\<lparr>url = Some (str ''v''), owner = None, repo = None, org = Some (str ''acme''),
       events = Some [str ''push''], secret = Some (str ''k'')\<rparr>"]
  by simp

text \<open>
  \<open>delete\<close>, like \<open>create\<close>, does inspect the status: anything but 204 is raised.
\<close>

lemma GithubWebhookProvider_delete_checks_status:
  assumes "call = (if org props \<noteq> None \<and> org props \<noteq> Some []
                   then OrgsDeleteHook ident (org props)
                   else ReposDeleteHook ident (owner props) (repo props))"
    and "octokit call = Inr res"
  shows "GithubWebhookProvider_delete ghToken octokit ident props
         = ([Authenticate (str ''token'') ghToken, call],
            if status res \<noteq> 204 then Inl (BadResponse res) else Inr ())"
  using assms
  by (auto simp add: GithubWebhookProvider_delete_def truthy_def Let_def split: option.splits)

end
